theory Spec2Isabelle
  imports Main
begin

section \<open>The API client facade of \<^verbatim>\<open>src/lib/api.ts\<close>\<close>

text \<open>
  The file wraps the REST endpoints of a backend behind asynchronous functions. Its effects
  are: reading and writing the browser's persistent key-value store, showing notifications,
  and issuing HTTP requests through a third-party transport library. The model makes all
  three explicit: the store and the list of notifications shown so far are fields of a
  \<open>world\<close> record that every operation takes and returns, every request handed to the
  network is appended to a log in the same record, and what the network answers is a
  parameter of the model. A rejected promise is the \<open>Inl\<close> side of a sum.
\<close>

subsection \<open>JavaScript values\<close>

text \<open>
  The error handler takes a value of type \<^verbatim>\<open>any\<close> and tests fields of the decoded
  response body for truthiness, so the model needs the values a decoded body can hold.
  The code never computes with a number: it tests one for truthiness and converts it to
  a string. A number is therefore given by the text the language's number-to-string
  conversion produces for it (\<^verbatim>\<open>1000\<close>, \<^verbatim>\<open>-3\<close>, \<^verbatim>\<open>0.5\<close>, \<^verbatim>\<open>1e+21\<close>, \<^verbatim>\<open>NaN\<close>);
  the two zeros both read \<^verbatim>\<open>0\<close>, and the code cannot tell them apart. An object is
  the list of its own properties, each key once.
\<close>

type_synonym js_number = string

datatype jsval =
    JUndefined
  | JNull
  | JBool bool
  | JNum js_number
  | JStr string
  | JArr "jsval list"
  | JObj "(string \<times> jsval) list"

text \<open>What \<^verbatim>\<open>if (v)\<close> tests. The numbers that fail it are the zeros and NaN.\<close>

fun truthy :: "jsval \<Rightarrow> bool" where
  "truthy JUndefined = False"
| "truthy JNull = False"
| "truthy (JBool b) = b"
| "truthy (JNum n) = (n \<noteq> ''0'' \<and> n \<noteq> ''NaN'')"
| "truthy (JStr s) = (s \<noteq> [])"
| "truthy (JArr xs) = True"
| "truthy (JObj ps) = True"

text \<open>
  Reading a property that may be missing: \<^verbatim>\<open>v?.k\<close>. Only the keys \<^verbatim>\<open>detail\<close> and
  \<^verbatim>\<open>message\<close> are ever read from a response body; no primitive and no array has a
  property of either name, so everything but an object yields \<^verbatim>\<open>undefined\<close>.
\<close>

fun get_prop :: "jsval \<Rightarrow> string \<Rightarrow> jsval" where
  "get_prop (JObj ps) k = (case map_of ps k of Some v \<Rightarrow> v | None \<Rightarrow> JUndefined)"
| "get_prop v k = JUndefined"

text \<open>
  The string conversion that \<^verbatim>\<open>new Error(v)\<close> applies to a value that is not already a
  string; \<open>None\<close> stands for the TypeError the conversion throws. An array is joined with
  commas, a null or undefined element giving the empty string. A plain object gives
  \<^verbatim>\<open>[object Object]\<close>, unless it has a property of its own named \<^verbatim>\<open>toString\<close>: a
  decoded body holds no function, so that property hides the inherited method without
  being callable, and the conversion throws.
\<close>

fun js_to_string :: "jsval \<Rightarrow> string option"
  and js_join :: "jsval list \<Rightarrow> string option"
  and js_element :: "jsval \<Rightarrow> string option"
where
  "js_to_string JUndefined = Some ''undefined''"
| "js_to_string JNull = Some ''null''"
| "js_to_string (JBool b) = Some (if b then ''true'' else ''false'')"
| "js_to_string (JNum n) = Some n"
| "js_to_string (JStr s) = Some s"
| "js_to_string (JArr xs) = js_join xs"
| "js_to_string (JObj ps) =
     (if map_of ps ''toString'' = None then Some ''[object Object]'' else None)"
| "js_join [] = Some []"
| "js_join [x] = js_element x"
| "js_join (x # y # ys) =
     (case js_element x of
        None \<Rightarrow> None
      | Some s \<Rightarrow> (case js_join (y # ys) of None \<Rightarrow> None | Some t \<Rightarrow> Some (s @ '','' @ t)))"
| "js_element JUndefined = Some []"
| "js_element JNull = Some []"
| "js_element (JBool b) = js_to_string (JBool b)"
| "js_element (JNum n) = js_to_string (JNum n)"
| "js_element (JStr s) = js_to_string (JStr s)"
| "js_element (JArr xs) = js_to_string (JArr xs)"
| "js_element (JObj ps) = js_to_string (JObj ps)"

text \<open>
  The values of a flat form object: primitives only, whose conversion to a string cannot
  throw.
\<close>

datatype js_prim =
    PUndefined
  | PNull
  | PBool bool
  | PNum js_number
  | PStr string

fun prim_to_string :: "js_prim \<Rightarrow> string" where
  "prim_to_string PUndefined = ''undefined''"
| "prim_to_string PNull = ''null''"
| "prim_to_string (PBool b) = (if b then ''true'' else ''false'')"
| "prim_to_string (PNum n) = n"
| "prim_to_string (PStr s) = s"

subsection \<open>Requests, responses and transport errors\<close>

text \<open>
  A multipart form is the list of its entries in the order they were appended; an entry is
  a string or a file.
\<close>

datatype js_file = File (file_name: string) (file_bytes: string)

datatype form_value = FText string | FFile js_file

type_synonym form_data = "(string \<times> form_value) list"

definition form_append :: "form_data \<Rightarrow> string \<Rightarrow> form_value \<Rightarrow> form_data" where
  "form_append fd k v = fd @ [(k, v)]"

datatype body = NoBody | JsonBody jsval | FormBody form_data

record request_config =
  http_method :: string
  url :: string
  baseURL :: "string option"
  timeout :: nat
  headers :: "(string \<rightharpoonup> string) option"
  params :: "(string \<times> jsval) list"
  payload :: body
  responseType :: "string option"

record axios_response =
  status :: int
  data :: jsval

record axios_error =
  code :: "string option"
  message :: string
  response :: "axios_response option"

text \<open>
  An error object as it reaches the caller, given by its message: it has no other
  payload.
\<close>

datatype js_error = Error string

text \<open>
  The transport library is not part of the repository. The model takes from it two things
  as parameters: the headers it puts on every request by default, and the outcome of a
  request once it has left the request interceptor (a response, or the error object the
  library rejects with).
\<close>

record axios_env =
  default_headers :: "string \<rightharpoonup> string"
  net :: "request_config \<Rightarrow> axios_error + axios_response"

subsection \<open>The world: credential store, notifications, requests sent\<close>

record world =
  localStorage :: "string \<rightharpoonup> string"
  toasts :: "string list"
  sent :: "request_config list"

definition toast_error :: "string \<Rightarrow> world \<Rightarrow> world" where
  "toast_error msg w = w\<lparr>toasts := toasts w @ [msg]\<rparr>"

subsection \<open>Transport configuration\<close>

definition API_BASE_URL :: string where
  "API_BASE_URL = ''https://giftlib-backend.onrender.com''"

text \<open>The per-call configuration an endpoint wrapper may pass along.\<close>

record options =
  opt_headers :: "(string \<times> string) list"
  opt_params :: "(string \<times> jsval) list"
  opt_responseType :: "string option"

definition no_options :: options where
  "no_options = \<lparr>opt_headers = [], opt_params = [], opt_responseType = None\<rparr>"

text \<open>
  The configuration the instance made by \<^verbatim>\<open>axios.create\<close> hands to its request
  interceptor: base URL and a timeout of 30000 ms from the instance, the call's headers
  merged over the library's defaults.
\<close>

definition api_config :: "axios_env \<Rightarrow> string \<Rightarrow> string \<Rightarrow> body \<Rightarrow> options \<Rightarrow> request_config" where
  "api_config env m u b opts =
     \<lparr>http_method = m, url = u, baseURL = Some API_BASE_URL, timeout = 30000,
      headers = Some (default_headers env ++ map_of (opt_headers opts)),
      params = opt_params opts, payload = b, responseType = opt_responseType opts\<rparr>"

text \<open>The configuration of a call on the bare library object: no base URL, no timeout.\<close>

definition axios_config :: "axios_env \<Rightarrow> string \<Rightarrow> string \<Rightarrow> body \<Rightarrow> request_config" where
  "axios_config env m u b =
     \<lparr>http_method = m, url = u, baseURL = None, timeout = 0,
      headers = Some (default_headers env),
      params = [], payload = b, responseType = None\<rparr>"

text \<open>
  The request interceptor. \<^verbatim>\<open>localStorage.getItem\<close> returns \<^verbatim>\<open>null\<close> for a missing key;
  the guard \<^verbatim>\<open>apiKey && config.headers\<close> also fails on the empty string.
\<close>

definition request_fulfilled :: "world \<Rightarrow> request_config \<Rightarrow> request_config" where
  "request_fulfilled w config =
     (case localStorage w ''giftlib_api_key'' of
        None \<Rightarrow> config
      | Some apiKey \<Rightarrow>
          (if apiKey \<noteq> [] then
             (case headers config of
                None \<Rightarrow> config
              | Some h \<Rightarrow> config\<lparr>headers := Some (h(''X-API-Key'' \<mapsto> apiKey))\<rparr>)
           else config))"

subsection \<open>Response interceptor\<close>

text \<open>
  The five messages; each starts with an emoji, given here by its UTF-8 bytes.
\<close>

definition timeout_toast :: string where
  "timeout_toast = [CHR 0xE2, CHR 0x8F, CHR 0xB0]
     @ '' Request timed out. The server may be overloaded or unresponsive.''"

definition network_toast :: string where
  "network_toast = [CHR 0xF0, CHR 0x9F, CHR 0x94, CHR 0x8C]
     @ '' Connection failed. Please check if the backend server is running.''"

definition unauthorized_toast :: string where
  "unauthorized_toast = [CHR 0xF0, CHR 0x9F, CHR 0x94, CHR 0x90]
     @ '' Unauthorized. Please check your API key.''"

definition forbidden_toast :: string where
  "forbidden_toast = [CHR 0xF0, CHR 0x9F, CHR 0x9A, CHR 0xAB]
     @ '' Forbidden. You don'' @ [CHR 0x27] @ ''t have permission to access this resource.''"

definition server_toast :: string where
  "server_toast = [CHR 0xF0, CHR 0x9F, CHR 0x94, CHR 0xA5]
     @ '' Server error. Please try again later.''"

text \<open>\<^verbatim>\<open>error.response?.status\<close>: absent when the error carries no response.\<close>

definition response_status :: "axios_error \<Rightarrow> int option" where
  "response_status error = map_option status (response error)"

text \<open>
  The rejection handler. A comparison of \<^verbatim>\<open>undefined\<close> with a number is false, so the
  last test fails when there is no response.
\<close>

definition response_rejected :: "axios_error \<Rightarrow> world \<Rightarrow> world \<times> (axios_error + axios_response)" where
  "response_rejected error w =
     (let w' =
        (if code error = Some ''ECONNABORTED'' then toast_error timeout_toast w
         else if code error = Some ''ERR_NETWORK'' then toast_error network_toast w
         else if response_status error = Some 401 then toast_error unauthorized_toast w
         else if response_status error = Some 403 then toast_error forbidden_toast w
         else if (case response_status error of None \<Rightarrow> False | Some s \<Rightarrow> s \<ge> 500)
           then toast_error server_toast w
         else w)
      in (w', Inl error))"

text \<open>The fulfilment handler returns the response as it is.\<close>

definition response_fulfilled :: "axios_response \<Rightarrow> axios_response" where
  "response_fulfilled res = res"

text \<open>
  A request through the configured instance: request interceptor, network, response
  interceptor. A request through the bare library object meets no interceptor.
\<close>

definition api_request :: "axios_env \<Rightarrow> request_config \<Rightarrow> world \<Rightarrow> world \<times> (axios_error + axios_response)" where
  "api_request env config w =
     (let config' = request_fulfilled w config;
          w' = w\<lparr>sent := sent w @ [config']\<rparr>
      in case net env config' of
           Inr res \<Rightarrow> (w', Inr (response_fulfilled res))
         | Inl error \<Rightarrow> response_rejected error w')"

definition axios_request :: "axios_env \<Rightarrow> request_config \<Rightarrow> world \<Rightarrow> world \<times> (axios_error + axios_response)" where
  "axios_request env config w = (w\<lparr>sent := sent w @ [config]\<rparr>, net env config)"

subsection \<open>Response and error helpers\<close>

definition handleResponse :: "axios_response \<Rightarrow> jsval" where
  "handleResponse res = data res"

text \<open>
  \<^verbatim>\<open>error.response?.data?.k\<close>: undefined without a response, and undefined when the
  body is null, undefined or anything else without such a property.
\<close>

definition server_field :: "axios_error \<Rightarrow> string \<Rightarrow> jsval" where
  "server_field error k =
     (case response error of None \<Rightarrow> JUndefined | Some r \<Rightarrow> get_prop (data r) k)"

text \<open>
  \<^verbatim>\<open>new Error(v)\<close> for a field \<open>v\<close> of the body: the message is \<open>v\<close> converted to a
  string. When the conversion throws, what leaves the handler is the engine's TypeError
  instead, with the engine's own message (here in the wording of V8).
\<close>

definition type_error_message :: string where
  "type_error_message = ''Cannot convert object to primitive value''"

definition new_Error :: "jsval \<Rightarrow> js_error" where
  "new_Error v = (case js_to_string v of Some m \<Rightarrow> Error m | None \<Rightarrow> Error type_error_message)"

text \<open>\<^verbatim>\<open>handleError\<close> always throws; the model returns the error it throws.\<close>

definition handleError :: "axios_error \<Rightarrow> js_error" where
  "handleError error =
     (if truthy (server_field error ''detail'') then
        new_Error (server_field error ''detail'')
      else if truthy (server_field error ''message'') then
        new_Error (server_field error ''message'')
      else if message error \<noteq> [] then
        Error (message error)
      else
        Error ''An unexpected error occurred'')"

text \<open>
  The \<^verbatim>\<open>try { ... return handleResponse(response) } catch (error) { handleError(error) }\<close>
  frame that every endpoint wrapper puts around its request.
\<close>

definition settle :: "world \<times> (axios_error + axios_response) \<Rightarrow> world \<times> (js_error + jsval)" where
  "settle r =
     (case r of
        (w, Inr res) \<Rightarrow> (w, Inr (handleResponse res))
      | (w, Inl error) \<Rightarrow> (w, Inl (handleError error)))"

subsection \<open>Endpoint wrappers\<close>

text \<open>
  Modelled from the spec: the declaration of \<^verbatim>\<open>CreateUserForm\<close> (module \<^verbatim>\<open>@/types\<close>) is
  not among the sources. The interface table gives the fields \<^verbatim>\<open>email\<close>, \<^verbatim>\<open>full_name\<close>
  and the optional \<^verbatim>\<open>company_name\<close>.
\<close>

record CreateUserForm =
  email :: string
  full_name :: string
  company_name :: "string option"

text \<open>
  Modelled from the spec: the declaration of \<^verbatim>\<open>EmailConfig\<close> (module \<^verbatim>\<open>@/types\<close>) is not
  among the sources. The interface table gives the fields \<^verbatim>\<open>resend_api_key\<close>,
  \<^verbatim>\<open>from_email\<close> and the optional \<^verbatim>\<open>sending_domain\<close>.
\<close>

record EmailConfig =
  resend_api_key :: string
  from_email :: string
  sending_domain :: "string option"

text \<open>
  The payloads of the gift operations (\<^verbatim>\<open>GiftData\<close>, \<^verbatim>\<open>BulkGiftData\<close>,
  \<^verbatim>\<open>StatusUpdate\<close>) are passed through untouched, so they are plain values here.
\<close>

definition healthCheck :: "axios_env \<Rightarrow> world \<Rightarrow> world \<times> (js_error + jsval)" where
  "healthCheck env w =
     settle (axios_request env (axios_config env ''get'' (API_BASE_URL @ ''/'') NoBody) w)"

definition createUser_form :: "CreateUserForm \<Rightarrow> form_data" where
  "createUser_form userData =
     (let formData = [];
          formData = form_append formData ''email'' (FText (email userData));
          formData = form_append formData ''full_name'' (FText (full_name userData))
      in case company_name userData of
           None \<Rightarrow> formData
         | Some c \<Rightarrow>
             (if c \<noteq> [] then form_append formData ''company_name'' (FText c)
              else formData))"

definition createUser :: "axios_env \<Rightarrow> CreateUserForm \<Rightarrow> world \<Rightarrow> world \<times> (js_error + jsval)" where
  "createUser env userData w =
     settle (axios_request env
       (axios_config env ''post'' (API_BASE_URL @ ''/api/users'')
          (FormBody (createUser_form userData))) w)"

definition getUserProfile :: "axios_env \<Rightarrow> world \<Rightarrow> world \<times> (js_error + jsval)" where
  "getUserProfile env w =
     settle (api_request env (api_config env ''get'' ''/api/user/profile'' NoBody no_options) w)"

definition initiateGift :: "axios_env \<Rightarrow> jsval \<Rightarrow> world \<Rightarrow> world \<times> (js_error + jsval)" where
  "initiateGift env giftData w =
     settle (api_request env
       (api_config env ''post'' ''/api/initiate-gift'' (JsonBody giftData) no_options) w)"

definition bulkInitiateGifts :: "axios_env \<Rightarrow> jsval \<Rightarrow> world \<Rightarrow> world \<times> (js_error + jsval)" where
  "bulkInitiateGifts env bulkData w =
     settle (api_request env
       (api_config env ''post'' ''/api/bulk-initiate-gifts'' (JsonBody bulkData) no_options) w)"

text \<open>The parameter \<^verbatim>\<open>limit\<close> defaults to 1000 when the caller leaves it out.\<close>

definition getAllGifts :: "axios_env \<Rightarrow> js_number option \<Rightarrow> world \<Rightarrow> world \<times> (js_error + jsval)" where
  "getAllGifts env limit w =
     (let limit = (case limit of None \<Rightarrow> ''1000'' | Some n \<Rightarrow> n)
      in settle (api_request env
           (api_config env ''get'' ''/api/gifts'' NoBody
              (no_options\<lparr>opt_params := [(''limit'', JNum limit)]\<rparr>)) w))"

definition getCampaignGifts :: "axios_env \<Rightarrow> string \<Rightarrow> world \<Rightarrow> world \<times> (js_error + jsval)" where
  "getCampaignGifts env campaignId w =
     settle (api_request env
       (api_config env ''get'' (''/api/campaign-gifts/'' @ campaignId) NoBody no_options) w)"

definition updateGiftStatus :: "axios_env \<Rightarrow> jsval \<Rightarrow> world \<Rightarrow> world \<times> (js_error + jsval)" where
  "updateGiftStatus env statusData w =
     settle (api_request env
       (api_config env ''put'' ''/api/gift-status'' (JsonBody statusData) no_options) w)"

definition getGiftStatus :: "axios_env \<Rightarrow> string \<Rightarrow> world \<Rightarrow> world \<times> (js_error + jsval)" where
  "getGiftStatus env giftId w =
     settle (api_request env
       (api_config env ''get'' (''/api/gift-status/'' @ giftId) NoBody no_options) w)"

definition verifyGift :: "axios_env \<Rightarrow> string \<Rightarrow> bool \<Rightarrow> world \<Rightarrow> world \<times> (js_error + jsval)" where
  "verifyGift env giftId verified w =
     settle (api_request env
       (api_config env ''post'' ''/api/verify-gift''
          (JsonBody (JObj [(''giftId'', JStr giftId), (''verified'', JBool verified)]))
          no_options) w)"

text \<open>This wrapper returns \<^verbatim>\<open>response.data\<close> itself instead of calling the helper.\<close>

definition downloadExcelTemplate :: "axios_env \<Rightarrow> world \<Rightarrow> world \<times> (js_error + jsval)" where
  "downloadExcelTemplate env w =
     (case api_request env
        (api_config env ''get'' ''/api/download-excel-template'' NoBody
           (no_options\<lparr>opt_responseType := Some ''blob''\<rparr>)) w of
        (w', Inr res) \<Rightarrow> (w', Inr (data res))
      | (w', Inl error) \<Rightarrow> (w', Inl (handleError error)))"

definition uploadExcelFile :: "axios_env \<Rightarrow> js_file \<Rightarrow> string \<Rightarrow> world \<Rightarrow> world \<times> (js_error + jsval)" where
  "uploadExcelFile env f campaignId w =
     (let formData = [];
          formData = form_append formData ''file'' (FFile f);
          formData = form_append formData ''campaign_id'' (FText campaignId)
      in settle (api_request env
           (api_config env ''post'' ''/api/upload-excel'' (FormBody formData)
              (no_options\<lparr>opt_headers := [(''Content-Type'', ''multipart/form-data'')]\<rparr>)) w))"

definition getEmailConfig :: "axios_env \<Rightarrow> world \<Rightarrow> world \<times> (js_error + jsval)" where
  "getEmailConfig env w =
     settle (api_request env (api_config env ''get'' ''/api/email-config'' NoBody no_options) w)"

definition updateEmailConfig_form :: "EmailConfig \<Rightarrow> form_data" where
  "updateEmailConfig_form config =
     (let formData = [];
          formData = form_append formData ''resend_api_key'' (FText (resend_api_key config));
          formData = form_append formData ''from_email'' (FText (from_email config))
      in case sending_domain config of
           None \<Rightarrow> formData
         | Some d \<Rightarrow>
             (if d \<noteq> [] then form_append formData ''sending_domain'' (FText d)
              else formData))"

definition updateEmailConfig :: "axios_env \<Rightarrow> EmailConfig \<Rightarrow> world \<Rightarrow> world \<times> (js_error + jsval)" where
  "updateEmailConfig env config w =
     settle (api_request env
       (api_config env ''post'' ''/api/email-config''
          (FormBody (updateEmailConfig_form config)) no_options) w)"

text \<open>
  \<^verbatim>\<open>testData\<close> is a flat object of form fields, given by the list of its properties in
  key order, each a primitive value; every property that is neither null nor undefined is
  appended, converted to a string.
\<close>

fun testEmailConfig_form :: "(string \<times> js_prim) list \<Rightarrow> form_data \<Rightarrow> form_data" where
  "testEmailConfig_form [] formData = formData"
| "testEmailConfig_form ((k, v) # ps) formData =
     testEmailConfig_form ps
       (if v \<noteq> PNull \<and> v \<noteq> PUndefined then form_append formData k (FText (prim_to_string v))
        else formData)"

definition testEmailConfig :: "axios_env \<Rightarrow> (string \<times> js_prim) list \<Rightarrow> world \<Rightarrow> world \<times> (js_error + jsval)" where
  "testEmailConfig env testData w =
     settle (api_request env
       (api_config env ''post'' ''/api/email-config/test''
          (FormBody (testEmailConfig_form testData [])) no_options) w)"

text \<open>
  One constructor for each asynchronous function of \<^verbatim>\<open>apiService\<close>, so that a property
  of every endpoint wrapper is a property of \<open>apiService\<close> at every call.
\<close>

datatype api_call =
    HealthCheck
  | CreateUser CreateUserForm
  | GetUserProfile
  | InitiateGift jsval
  | BulkInitiateGifts jsval
  | GetAllGifts "js_number option"
  | GetCampaignGifts string
  | UpdateGiftStatus jsval
  | GetGiftStatus string
  | VerifyGift string bool
  | DownloadExcelTemplate
  | UploadExcelFile js_file string
  | GetEmailConfig
  | UpdateEmailConfig EmailConfig
  | TestEmailConfig "(string \<times> js_prim) list"

fun apiService :: "axios_env \<Rightarrow> api_call \<Rightarrow> world \<Rightarrow> world \<times> (js_error + jsval)" where
  "apiService env HealthCheck w = healthCheck env w"
| "apiService env (CreateUser userData) w = createUser env userData w"
| "apiService env GetUserProfile w = getUserProfile env w"
| "apiService env (InitiateGift giftData) w = initiateGift env giftData w"
| "apiService env (BulkInitiateGifts bulkData) w = bulkInitiateGifts env bulkData w"
| "apiService env (GetAllGifts limit) w = getAllGifts env limit w"
| "apiService env (GetCampaignGifts campaignId) w = getCampaignGifts env campaignId w"
| "apiService env (UpdateGiftStatus statusData) w = updateGiftStatus env statusData w"
| "apiService env (GetGiftStatus giftId) w = getGiftStatus env giftId w"
| "apiService env (VerifyGift giftId verified) w = verifyGift env giftId verified w"
| "apiService env DownloadExcelTemplate w = downloadExcelTemplate env w"
| "apiService env (UploadExcelFile f campaignId) w = uploadExcelFile env f campaignId w"
| "apiService env GetEmailConfig w = getEmailConfig env w"
| "apiService env (UpdateEmailConfig config) w = updateEmailConfig env config w"
| "apiService env (TestEmailConfig testData) w = testEmailConfig env testData w"

text \<open>Which wrappers go through the configured instance rather than the bare library.\<close>

fun via_api :: "api_call \<Rightarrow> bool" where
  "via_api HealthCheck = False"
| "via_api (CreateUser userData) = False"
| "via_api c = True"

subsection \<open>Credential store accessor\<close>

definition setApiKey :: "string \<Rightarrow> world \<Rightarrow> world" where
  "setApiKey apiKey w = w\<lparr>localStorage := (localStorage w)(''giftlib_api_key'' \<mapsto> apiKey)\<rparr>"

definition getApiKey :: "world \<Rightarrow> string option" where
  "getApiKey w = localStorage w ''giftlib_api_key''"

definition removeApiKey :: "world \<Rightarrow> world" where
  "removeApiKey w = w\<lparr>localStorage := (localStorage w)(''giftlib_api_key'' := None)\<rparr>"

subsection \<open>Observing a call\<close>

text \<open>
  Every wrapper hands exactly one request to the network; it is the last entry of the log
  afterwards. \<open>header r k\<close> is the value of header \<open>k\<close> on request \<open>r\<close>, if it has one.
\<close>

definition outgoing :: "axios_env \<Rightarrow> api_call \<Rightarrow> world \<Rightarrow> request_config" where
  "outgoing env c w = last (sent (fst (apiService env c w)))"

definition header :: "request_config \<Rightarrow> string \<Rightarrow> string option" where
  "header r k = (case headers r of None \<Rightarrow> None | Some h \<Rightarrow> h k)"

text \<open>The notifications the rejection handler shows for an error, as a list.\<close>

definition notice :: "axios_error \<Rightarrow> string list" where
  "notice e =
     (if code e = Some ''ECONNABORTED'' then [timeout_toast]
      else if code e = Some ''ERR_NETWORK'' then [network_toast]
      else if response_status e = Some 401 then [unauthorized_toast]
      else if response_status e = Some 403 then [forbidden_toast]
      else if (case response_status e of None \<Rightarrow> False | Some s \<Rightarrow> s \<ge> 500) then [server_toast]
      else [])"

subsection \<open>The failure categories as the specification words them\<close>

text \<open>
  The specification names five categories, tested in this order: client-side timeout,
  network or connection failure, HTTP 401, HTTP 403, HTTP 5xx. \<open>spec_category\<close> follows
  those words, to be compared with the chain of tests in \<open>response_rejected\<close>.
\<close>

datatype category = Timeout | NetworkUnavailable | Unauthorized | Forbidden | ServerError

definition spec_category :: "axios_error \<Rightarrow> category option" where
  "spec_category e =
     (if code e = Some ''ECONNABORTED'' then Some Timeout
      else if code e = Some ''ERR_NETWORK'' then Some NetworkUnavailable
      else (case response e of
              None \<Rightarrow> None
            | Some r \<Rightarrow>
                (if status r = 401 then Some Unauthorized
                 else if status r = 403 then Some Forbidden
                 else if 500 \<le> status r \<and> status r \<le> 599 then Some ServerError
                 else None)))"

fun category_toast :: "category \<Rightarrow> string" where
  "category_toast Timeout = timeout_toast"
| "category_toast NetworkUnavailable = network_toast"
| "category_toast Unauthorized = unauthorized_toast"
| "category_toast Forbidden = forbidden_toast"
| "category_toast ServerError = server_toast"

subsection \<open>Concrete scenarios\<close>

text \<open>A fresh browser: nothing stored, nothing shown, nothing sent.\<close>

definition fresh_world :: world where
  "fresh_world = \<lparr>localStorage = Map.empty, toasts = [], sent = []\<rparr>"

text \<open>A backend that answers every request with status 200 and an empty object.\<close>

definition ok_net :: "request_config \<Rightarrow> axios_error + axios_response" where
  "ok_net r = Inr \<lparr>status = 200, data = JObj []\<rparr>"

definition ok_env :: axios_env where
  "ok_env = \<lparr>default_headers = [''Accept'' \<mapsto> ''application/json, text/plain, */*''], net = ok_net\<rparr>"

text \<open>A transport on which every request fails with the given error.\<close>

definition failing_net :: "axios_error \<Rightarrow> request_config \<Rightarrow> axios_error + axios_response" where
  "failing_net e r = Inl e"

definition failing_env :: "axios_error \<Rightarrow> axios_env" where
  "failing_env e = \<lparr>default_headers = Map.empty, net = failing_net e\<rparr>"

text \<open>A timeout as the library reports it: a code, a message, no response.\<close>

definition timeout_error :: axios_error where
  "timeout_error =
     \<lparr>code = Some ''ECONNABORTED'', message = ''timeout of 30000ms exceeded'', response = None\<rparr>"

text \<open>An error that bears the timeout code together with a 401 response.\<close>

definition timeout_and_401 :: axios_error where
  "timeout_and_401 =
     \<lparr>code = Some ''ECONNABORTED'', message = ''timeout of 30000ms exceeded'',
      response = Some \<lparr>status = 401, data = JNull\<rparr>\<rparr>"

text \<open>A 404 whose body carries a detail.\<close>

definition not_found_error :: axios_error where
  "not_found_error =
     \<lparr>code = Some ''ERR_BAD_REQUEST'', message = ''Request failed with status code 404'',
      response = Some \<lparr>status = 404, data = JObj [(''detail'', JStr ''Not Found'')]\<rparr>\<rparr>"

text \<open>A 400 whose body has both fields, the detail non-empty.\<close>

definition detail_and_message_error :: axios_error where
  "detail_and_message_error =
     \<lparr>code = Some ''ERR_BAD_REQUEST'', message = ''Request failed with status code 400'',
      response = Some \<lparr>status = 400,
        data = JObj [(''detail'', JStr ''A''), (''message'', JStr ''B'')]\<rparr>\<rparr>"

text \<open>A 400 whose body has both fields, the detail being the empty string.\<close>

definition blank_detail_error :: axios_error where
  "blank_detail_error =
     \<lparr>code = Some ''ERR_BAD_REQUEST'', message = ''Request failed with status code 400'',
      response = Some \<lparr>status = 400,
        data = JObj [(''detail'', JStr []), (''message'', JStr ''B'')]\<rparr>\<rparr>"

text \<open>A 400 whose detail is the number \<^verbatim>\<open>1e21\<close>.\<close>

definition huge_detail_error :: axios_error where
  "huge_detail_error =
     \<lparr>code = Some ''ERR_BAD_REQUEST'', message = ''Request failed with status code 400'',
      response = Some \<lparr>status = 400, data = JObj [(''detail'', JNum ''1e+21'')]\<rparr>\<rparr>"

text \<open>A 503 from the backend.\<close>

definition unavailable_error :: axios_error where
  "unavailable_error =
     \<lparr>code = Some ''ERR_BAD_RESPONSE'', message = ''Request failed with status code 503'',
      response = Some \<lparr>status = 503, data = JStr ''Service Unavailable''\<rparr>\<rparr>"

definition alice :: CreateUserForm where
  "alice = \<lparr>email = ''alice@example.com'', full_name = ''Alice'', company_name = None\<rparr>"

definition bob :: CreateUserForm where
  "bob = \<lparr>email = ''bob@example.com'', full_name = ''Bob'', company_name = Some []\<rparr>"

definition carol :: CreateUserForm where
  "carol = \<lparr>email = ''carol@example.com'', full_name = ''Carol'', company_name = Some ''Acme''\<rparr>"

definition mail_plain :: EmailConfig where
  "mail_plain =
     \<lparr>resend_api_key = ''re_123'', from_email = ''gifts@example.com'', sending_domain = None\<rparr>"

definition mail_blank_domain :: EmailConfig where
  "mail_blank_domain =
     \<lparr>resend_api_key = ''re_123'', from_email = ''gifts@example.com'', sending_domain = Some []\<rparr>"

section \<open>Auxiliary facts\<close>

subsection \<open>The wrappers share one frame\<close>

lemma fst_settle: "fst (settle r) = fst r"
  by (simp add: settle_def split: prod.splits sum.splits)

lemma snd_settle_Inl: "snd r = Inl e \<Longrightarrow> snd (settle r) = Inl (handleError e)"
  by (cases r) (simp add: settle_def)

lemma snd_settle_Inr: "snd r = Inr res \<Longrightarrow> snd (settle r) = Inr (data res)"
  by (cases r) (simp add: settle_def handleResponse_def)

lemma downloadExcelTemplate_settle:
  "downloadExcelTemplate env w =
     settle (api_request env
        (api_config env ''get'' ''/api/download-excel-template'' NoBody
           (no_options\<lparr>opt_responseType := Some ''blob''\<rparr>)) w)"
  by (simp add: downloadExcelTemplate_def settle_def handleResponse_def
      split: prod.splits sum.splits)

lemmas api_wrapper_defs =
  getUserProfile_def initiateGift_def bulkInitiateGifts_def
  getAllGifts_def getCampaignGifts_def updateGiftStatus_def getGiftStatus_def verifyGift_def
  downloadExcelTemplate_settle uploadExcelFile_def getEmailConfig_def updateEmailConfig_def
  testEmailConfig_def

lemma via_api_shape:
  assumes "via_api c"
  shows "\<exists>m u b opts. map_of (opt_headers opts) ''X-API-Key'' = None
           \<and> apiService env c w = settle (api_request env (api_config env m u b opts) w)"
  using assms
  apply (cases c; simp only: apiService.simps via_api.simps api_wrapper_defs Let_def)
  apply (intro exI, rule conjI[rotated], rule refl, simp add: no_options_def)+
  done

lemma bare_shape:
  assumes "\<not> via_api c"
  shows "\<exists>m u b. apiService env c w = settle (axios_request env (axios_config env m u b) w)"
  using assms
  by (cases c; simp only: apiService.simps via_api.simps healthCheck_def createUser_def; blast)

subsection \<open>The interceptors\<close>

lemma header_request_fulfilled:
  "header (request_fulfilled w cfg) ''X-API-Key'' =
     (case localStorage w ''giftlib_api_key'' of
        None \<Rightarrow> header cfg ''X-API-Key''
      | Some k \<Rightarrow> if k \<noteq> [] \<and> headers cfg \<noteq> None then Some k else header cfg ''X-API-Key'')"
  by (simp add: request_fulfilled_def header_def split: option.splits)

lemma payload_request_fulfilled: "payload (request_fulfilled w cfg) = payload cfg"
  by (simp add: request_fulfilled_def split: option.splits)

lemma header_api_config:
  "header (api_config env m u b opts) k = (default_headers env ++ map_of (opt_headers opts)) k"
  by (simp add: header_def api_config_def)

lemma headers_api_config: "headers (api_config env m u b opts) \<noteq> None"
  by (simp add: api_config_def)

lemma header_axios_config: "header (axios_config env m u b) k = default_headers env k"
  by (simp add: header_def axios_config_def)

lemma response_rejected_eq:
  "response_rejected e w = (w\<lparr>toasts := toasts w @ notice e\<rparr>, Inl e)"
  by (simp add: response_rejected_def notice_def toast_error_def Let_def)

lemma api_request_sent:
  "sent (fst (api_request env cfg w)) = sent w @ [request_fulfilled w cfg]"
  by (simp add: api_request_def Let_def response_rejected_eq response_fulfilled_def
      split: sum.splits)

lemma api_request_Inl:
  "net env (request_fulfilled w cfg) = Inl e \<Longrightarrow>
     toasts (fst (api_request env cfg w)) = toasts w @ notice e
     \<and> snd (api_request env cfg w) = Inl e"
  by (simp add: api_request_def Let_def response_rejected_eq)

lemma api_request_Inr:
  "net env (request_fulfilled w cfg) = Inr res \<Longrightarrow>
     toasts (fst (api_request env cfg w)) = toasts w
     \<and> snd (api_request env cfg w) = Inr res"
  by (simp add: api_request_def Let_def response_fulfilled_def)

lemma axios_request_eq:
  "sent (fst (axios_request env cfg w)) = sent w @ [cfg]
   \<and> toasts (fst (axios_request env cfg w)) = toasts w
   \<and> localStorage (fst (axios_request env cfg w)) = localStorage w
   \<and> snd (axios_request env cfg w) = net env cfg"
  by (simp add: axios_request_def)

text \<open>What a call through the configured instance amounts to.\<close>

lemma via_api_call:
  assumes "via_api c"
  obtains cfg where
    "header cfg ''X-API-Key'' = default_headers env ''X-API-Key''"
    "headers cfg \<noteq> None"
    "apiService env c w = settle (api_request env cfg w)"
    "outgoing env c w = request_fulfilled w cfg"
    "sent (fst (apiService env c w)) = sent w @ [outgoing env c w]"
proof -
  from via_api_shape [OF assms, of env w] obtain m u b opts where
    k: "map_of (opt_headers opts) ''X-API-Key'' = None" and
    s: "apiService env c w = settle (api_request env (api_config env m u b opts) w)"
    by blast
  let ?cfg = "api_config env m u b opts"
  have h: "header ?cfg ''X-API-Key'' = default_headers env ''X-API-Key''"
    using k by (simp add: header_api_config map_add_def)
  have o: "outgoing env c w = request_fulfilled w ?cfg"
    by (simp add: outgoing_def s fst_settle api_request_sent)
  have l: "sent (fst (apiService env c w)) = sent w @ [outgoing env c w]"
    by (simp add: o s fst_settle api_request_sent)
  from h headers_api_config s o l show thesis by (rule that)
qed

text \<open>What a call on the bare library object amounts to.\<close>

lemma bare_call:
  assumes "\<not> via_api c"
  obtains cfg where
    "header cfg ''X-API-Key'' = default_headers env ''X-API-Key''"
    "apiService env c w = settle (axios_request env cfg w)"
    "outgoing env c w = cfg"
    "sent (fst (apiService env c w)) = sent w @ [outgoing env c w]"
proof -
  from bare_shape [OF assms, of env w] obtain m u b where
    s: "apiService env c w = settle (axios_request env (axios_config env m u b) w)"
    by blast
  let ?cfg = "axios_config env m u b"
  have o: "outgoing env c w = ?cfg"
    by (simp add: outgoing_def s fst_settle axios_request_eq)
  have l: "sent (fst (apiService env c w)) = sent w @ [outgoing env c w]"
    by (simp add: o s fst_settle axios_request_eq)
  from header_axios_config s o l show thesis by (rule that)
qed

text \<open>Outcome of any call, by the fate of its request.\<close>

lemma call_failure:
  assumes "net env (outgoing env c w) = Inl e"
  shows "snd (apiService env c w) = Inl (handleError e)"
    and "toasts (fst (apiService env c w)) = toasts w @ (if via_api c then notice e else [])"
proof -
  show "snd (apiService env c w) = Inl (handleError e)"
  proof (cases "via_api c")
    case True
    then obtain cfg where
      s: "apiService env c w = settle (api_request env cfg w)" and
      o: "outgoing env c w = request_fulfilled w cfg"
      by (rule via_api_call)
    from assms o have "snd (api_request env cfg w) = Inl e"
      by (simp add: api_request_Inl)
    then show ?thesis by (simp add: s snd_settle_Inl)
  next
    case False
    then obtain cfg where
      s: "apiService env c w = settle (axios_request env cfg w)" and
      o: "outgoing env c w = cfg"
      by (rule bare_call)
    from assms o have "snd (axios_request env cfg w) = Inl e"
      by (simp add: axios_request_eq)
    then show ?thesis by (simp add: s snd_settle_Inl)
  qed
  show "toasts (fst (apiService env c w)) = toasts w @ (if via_api c then notice e else [])"
  proof (cases "via_api c")
    case True
    then obtain cfg where
      s: "apiService env c w = settle (api_request env cfg w)" and
      o: "outgoing env c w = request_fulfilled w cfg"
      by (rule via_api_call)
    from assms o have "toasts (fst (api_request env cfg w)) = toasts w @ notice e"
      by (simp add: api_request_Inl)
    with True show ?thesis by (simp add: s fst_settle)
  next
    case False
    then obtain cfg where
      s: "apiService env c w = settle (axios_request env cfg w)"
      by (rule bare_call)
    with False show ?thesis by (simp add: fst_settle axios_request_eq)
  qed
qed

section \<open>Properties\<close>

text \<open>
  C8. For every string \<open>s\<close> and every prior content of the store, reading the credential
  after \<open>setApiKey s\<close> returns \<open>s\<close>, and reading it after \<open>removeApiKey\<close> returns absence
  (\<^verbatim>\<open>null\<close>, here \<open>None\<close>).
\<close>

theorem credential_set_get_remove:
  "getApiKey (setApiKey s w) = Some s \<and> getApiKey (removeApiKey w) = None"
  by (simp add: getApiKey_def setApiKey_def removeApiKey_def)

text \<open>
  C1, amended. A request issued through the configured instance carries the header
  \<^verbatim>\<open>X-API-Key\<close> with the stored credential when a non-empty credential is stored; when
  none is stored, or the stored one is the empty string, the header is absent (the
  library's default headers being without it).
\<close>

theorem api_key_header:
  assumes "via_api c" and "default_headers env ''X-API-Key'' = None"
  shows "sent (fst (apiService env c w)) = sent w @ [outgoing env c w]
       \<and> header (outgoing env c w) ''X-API-Key'' =
           (case getApiKey w of
              None \<Rightarrow> None
            | Some k \<Rightarrow> if k \<noteq> [] then Some k else None)"
proof -
  from assms(1) obtain cfg where
    h: "header cfg ''X-API-Key'' = default_headers env ''X-API-Key''" and
    n: "headers cfg \<noteq> None" and
    o: "outgoing env c w = request_fulfilled w cfg" and
    l: "sent (fst (apiService env c w)) = sent w @ [outgoing env c w]"
    by (rule via_api_call)
  have "header (outgoing env c w) ''X-API-Key'' =
          (case getApiKey w of None \<Rightarrow> None | Some k \<Rightarrow> if k \<noteq> [] then Some k else None)"
    using h n assms(2)
    by (simp add: o header_request_fulfilled getApiKey_def split: option.splits)
  with l show ?thesis by simp
qed

theorem api_key_header_witness:
  "via_api GetUserProfile \<and> default_headers ok_env ''X-API-Key'' = None
   \<and> header (outgoing ok_env GetUserProfile (setApiKey ''secret'' fresh_world)) ''X-API-Key''
       = Some ''secret''
   \<and> header (outgoing ok_env GetUserProfile fresh_world) ''X-API-Key'' = None"
proof -
  have a: "via_api GetUserProfile" by simp
  have b: "default_headers ok_env ''X-API-Key'' = None" by (simp add: ok_env_def)
  show ?thesis
    using api_key_header [OF a b, of "setApiKey ''secret'' fresh_world"]
      api_key_header [OF a b, of fresh_world] a b
    by (simp add: getApiKey_def setApiKey_def fresh_world_def)
qed

text \<open>
  C1 as stated fails when the stored credential is the empty string: it is stored, and
  the request goes out without the header.
\<close>

theorem empty_api_key_not_sent:
  "getApiKey (setApiKey [] fresh_world) = Some []
   \<and> header (outgoing ok_env GetUserProfile (setApiKey [] fresh_world)) ''X-API-Key'' = None"
  by (simp add: getApiKey_def setApiKey_def fresh_world_def outgoing_def getUserProfile_def
      fst_settle api_request_sent header_request_fulfilled header_api_config no_options_def
      ok_env_def)

text \<open>
  C2. The rejection handler of the response interceptor hands the error object on unchanged,
  whatever it is, and shows at most one notification. An error that falls into one of the
  five categories, tested in the order timeout, network failure, 401, 403, 5xx, gets
  exactly the one fixed message of its category, and the five messages differ from one
  another.
\<close>

theorem response_interceptor_classifies:
  "snd (response_rejected e w) = Inl e
   \<and> (\<exists>ns. toasts (fst (response_rejected e w)) = toasts w @ ns \<and> length ns \<le> 1)
   \<and> (\<forall>c. spec_category e = Some c \<longrightarrow>
          toasts (fst (response_rejected e w)) = toasts w @ [category_toast c])
   \<and> distinct (map category_toast [Timeout, NetworkUnavailable, Unauthorized, Forbidden, ServerError])"
proof -
  have unchanged: "snd (response_rejected e w) = Inl e"
    by (simp add: response_rejected_eq)
  have shown: "toasts (fst (response_rejected e w)) = toasts w @ notice e"
    by (simp add: response_rejected_eq)
  have "length (notice e) \<le> 1"
    by (simp add: notice_def)
  with shown have at_most_one:
    "\<exists>ns. toasts (fst (response_rejected e w)) = toasts w @ ns \<and> length ns \<le> 1"
    by blast
  have matched: "\<forall>c. spec_category e = Some c \<longrightarrow>
      toasts (fst (response_rejected e w)) = toasts w @ [category_toast c]"
  proof (intro allI impI)
    fix c assume "spec_category e = Some c"
    then have "notice e = [category_toast c]"
      by (auto simp: spec_category_def notice_def response_status_def
          split: if_splits option.splits)
    with shown show "toasts (fst (response_rejected e w)) = toasts w @ [category_toast c]"
      by simp
  qed
  have "distinct (map category_toast [Timeout, NetworkUnavailable, Unauthorized, Forbidden, ServerError])"
    by (simp add: timeout_toast_def network_toast_def unauthorized_toast_def
        forbidden_toast_def server_toast_def)
  with unchanged at_most_one matched show ?thesis by blast
qed

theorem response_interceptor_classifies_witness:
  "spec_category timeout_and_401 = Some Timeout
   \<and> toasts (fst (response_rejected timeout_and_401 fresh_world)) = [timeout_toast]
   \<and> snd (response_rejected timeout_and_401 fresh_world) = Inl timeout_and_401
   \<and> spec_category unavailable_error = Some ServerError
   \<and> toasts (fst (response_rejected unavailable_error fresh_world)) = [server_toast]"
proof -
  have a: "spec_category timeout_and_401 = Some Timeout"
    by (simp add: spec_category_def timeout_and_401_def)
  have b: "spec_category unavailable_error = Some ServerError"
    by (simp add: spec_category_def unavailable_error_def)
  show ?thesis
    using response_interceptor_classifies [of timeout_and_401 fresh_world]
      response_interceptor_classifies [of unavailable_error fresh_world] a b
    by (simp add: fresh_world_def)
qed

text \<open>
  C3, amended. Whatever the endpoint wrapper and whatever the failure of its request, the
  caller gets a new error that carries only a message, chosen in this order: the
  \<^verbatim>\<open>detail\<close> field of the response body if it is truthy (for a string: not empty), else
  the \<^verbatim>\<open>message\<close> field of the body if it is truthy, else the transport error's own message
  if it is not empty, else the fixed text. A chosen field that is not a string is
  converted to one by the language's string conversion, where that conversion yields a
  string. In particular a body with \<^verbatim>\<open>detail\<close> \<open>a\<close> (a non-empty string) and any
  \<^verbatim>\<open>message\<close> surfaces \<open>a\<close>.
\<close>

theorem normalized_error_precedence:
  assumes "net env (outgoing env c w) = Inl e"
  shows "(\<forall>m. truthy (server_field e ''detail'')
              \<and> js_to_string (server_field e ''detail'') = Some m \<longrightarrow>
            snd (apiService env c w) = Inl (Error m))
       \<and> (\<forall>m. \<not> truthy (server_field e ''detail'')
              \<and> truthy (server_field e ''message'')
              \<and> js_to_string (server_field e ''message'') = Some m \<longrightarrow>
            snd (apiService env c w) = Inl (Error m))
       \<and> (\<not> truthy (server_field e ''detail'') \<and> \<not> truthy (server_field e ''message'')
              \<and> message e \<noteq> [] \<longrightarrow>
            snd (apiService env c w) = Inl (Error (message e)))
       \<and> (\<not> truthy (server_field e ''detail'') \<and> \<not> truthy (server_field e ''message'')
              \<and> message e = [] \<longrightarrow>
            snd (apiService env c w) = Inl (Error ''An unexpected error occurred''))
       \<and> (\<forall>r ps a. response e = Some r \<and> data r = JObj ps
              \<and> map_of ps ''detail'' = Some (JStr a) \<and> a \<noteq> [] \<longrightarrow>
            snd (apiService env c w) = Inl (Error a))"
proof -
  have raised: "snd (apiService env c w) = Inl (handleError e)"
    using assms by (rule call_failure(1))
  have by_detail: "\<forall>m. truthy (server_field e ''detail'')
              \<and> js_to_string (server_field e ''detail'') = Some m \<longrightarrow>
            snd (apiService env c w) = Inl (Error m)"
    by (simp add: raised handleError_def new_Error_def)
  have by_message: "\<forall>m. \<not> truthy (server_field e ''detail'')
              \<and> truthy (server_field e ''message'')
              \<and> js_to_string (server_field e ''message'') = Some m \<longrightarrow>
            snd (apiService env c w) = Inl (Error m)"
    by (simp add: raised handleError_def new_Error_def)
  have by_own: "\<not> truthy (server_field e ''detail'') \<and> \<not> truthy (server_field e ''message'')
              \<and> message e \<noteq> [] \<longrightarrow>
            snd (apiService env c w) = Inl (Error (message e))"
    by (simp add: raised handleError_def)
  have by_fallback: "\<not> truthy (server_field e ''detail'') \<and> \<not> truthy (server_field e ''message'')
              \<and> message e = [] \<longrightarrow>
            snd (apiService env c w) = Inl (Error ''An unexpected error occurred'')"
    by (simp add: raised handleError_def)
  have in_particular: "\<forall>r ps a. response e = Some r \<and> data r = JObj ps
              \<and> map_of ps ''detail'' = Some (JStr a) \<and> a \<noteq> [] \<longrightarrow>
            snd (apiService env c w) = Inl (Error a)"
  proof (intro allI impI)
    fix r ps a
    assume h: "response e = Some r \<and> data r = JObj ps
              \<and> map_of ps ''detail'' = Some (JStr a) \<and> a \<noteq> []"
    then have "server_field e ''detail'' = JStr a"
      by (simp add: server_field_def)
    with h have "handleError e = Error a"
      by (simp add: handleError_def new_Error_def)
    with raised show "snd (apiService env c w) = Inl (Error a)" by simp
  qed
  from by_detail by_message by_own by_fallback in_particular show ?thesis by blast
qed

theorem normalized_error_precedence_witness:
  "net (failing_env detail_and_message_error)
       (outgoing (failing_env detail_and_message_error) (GetGiftStatus ''g1'') fresh_world)
     = Inl detail_and_message_error
   \<and> truthy (server_field detail_and_message_error ''detail'')
   \<and> js_to_string (server_field detail_and_message_error ''detail'') = Some ''A''
   \<and> snd (apiService (failing_env detail_and_message_error) (GetGiftStatus ''g1'') fresh_world)
       = Inl (Error ''A'')
   \<and> net (failing_env huge_detail_error)
       (outgoing (failing_env huge_detail_error) GetUserProfile fresh_world)
     = Inl huge_detail_error
   \<and> truthy (server_field huge_detail_error ''detail'')
   \<and> js_to_string (server_field huge_detail_error ''detail'') = Some ''1e+21''
   \<and> snd (apiService (failing_env huge_detail_error) GetUserProfile fresh_world)
       = Inl (Error ''1e+21'')
   \<and> net (failing_env timeout_error)
       (outgoing (failing_env timeout_error) GetEmailConfig fresh_world)
     = Inl timeout_error
   \<and> snd (apiService (failing_env timeout_error) GetEmailConfig fresh_world)
       = Inl (Error ''timeout of 30000ms exceeded'')"
proof -
  have a: "net (failing_env detail_and_message_error)
       (outgoing (failing_env detail_and_message_error) (GetGiftStatus ''g1'') fresh_world)
     = Inl detail_and_message_error"
    by (simp add: failing_env_def failing_net_def)
  have b: "net (failing_env huge_detail_error)
       (outgoing (failing_env huge_detail_error) GetUserProfile fresh_world)
     = Inl huge_detail_error"
    by (simp add: failing_env_def failing_net_def)
  have c: "net (failing_env timeout_error)
       (outgoing (failing_env timeout_error) GetEmailConfig fresh_world)
     = Inl timeout_error"
    by (simp add: failing_env_def failing_net_def)
  have d1: "server_field detail_and_message_error ''detail'' = JStr ''A''"
    by (simp add: server_field_def detail_and_message_error_def)
  have d2: "server_field huge_detail_error ''detail'' = JNum ''1e+21''"
    by (simp add: server_field_def huge_detail_error_def)
  have d3: "server_field timeout_error ''detail'' = JUndefined"
    "server_field timeout_error ''message'' = JUndefined"
    "message timeout_error = ''timeout of 30000ms exceeded''"
    by (simp_all add: server_field_def timeout_error_def)
  show ?thesis
    using normalized_error_precedence [OF a] normalized_error_precedence [OF b]
      normalized_error_precedence [OF c] a b c
    by (simp add: d1 d2 d3)
qed

text \<open>
  C3 as stated fails on a body whose \<^verbatim>\<open>detail\<close> field is present and is the empty string:
  the message surfaced is the \<^verbatim>\<open>message\<close> field, not the detail.
\<close>

theorem blank_detail_skipped:
  "server_field blank_detail_error ''detail'' = JStr []
   \<and> snd (apiService (failing_env blank_detail_error) GetUserProfile fresh_world)
       = Inl (Error ''B'')"
proof -
  have "net (failing_env blank_detail_error)
       (outgoing (failing_env blank_detail_error) GetUserProfile fresh_world)
     = Inl blank_detail_error"
    by (simp add: failing_env_def failing_net_def)
  then have "snd (apiService (failing_env blank_detail_error) GetUserProfile fresh_world)
      = Inl (handleError blank_detail_error)"
    by (rule call_failure(1))
  then show ?thesis
    by (simp add: handleError_def new_Error_def server_field_def blank_detail_error_def)
qed

text \<open>
  C4. When a request issued through the configured instance times out (the library
  rejects with the code \<^verbatim>\<open>ECONNABORTED\<close> and no response), exactly one notification is
  added, the timeout one, and the wrapper raises an error whose message is what the
  precedence falls back to: the transport's own timeout message, or the fixed text when
  that message is empty.
\<close>

theorem timeout_notified_once:
  assumes "via_api c"
    and "net env (outgoing env c w) = Inl e"
    and "code e = Some ''ECONNABORTED''"
    and "response e = None"
  shows "toasts (fst (apiService env c w)) = toasts w @ [timeout_toast]
       \<and> snd (apiService env c w) =
           Inl (Error (if message e \<noteq> [] then message e else ''An unexpected error occurred''))"
proof -
  have "notice e = [timeout_toast]"
    using assms(3) by (simp add: notice_def)
  with call_failure(2) [OF assms(2)] assms(1)
  have shown: "toasts (fst (apiService env c w)) = toasts w @ [timeout_toast]"
    by simp
  have "handleError e =
      Error (if message e \<noteq> [] then message e else ''An unexpected error occurred'')"
    using assms(4) by (simp add: handleError_def server_field_def)
  with call_failure(1) [OF assms(2)]
  have "snd (apiService env c w) =
           Inl (Error (if message e \<noteq> [] then message e else ''An unexpected error occurred''))"
    by simp
  with shown show ?thesis by simp
qed

theorem timeout_notified_once_witness:
  "via_api (InitiateGift JNull)
   \<and> net (failing_env timeout_error)
        (outgoing (failing_env timeout_error) (InitiateGift JNull) fresh_world) = Inl timeout_error
   \<and> code timeout_error = Some ''ECONNABORTED''
   \<and> response timeout_error = None
   \<and> toasts (fst (apiService (failing_env timeout_error) (InitiateGift JNull) fresh_world))
       = [timeout_toast]
   \<and> snd (apiService (failing_env timeout_error) (InitiateGift JNull) fresh_world)
       = Inl (Error ''timeout of 30000ms exceeded'')"
proof -
  have a: "via_api (InitiateGift JNull)" by simp
  have b: "net (failing_env timeout_error)
        (outgoing (failing_env timeout_error) (InitiateGift JNull) fresh_world) = Inl timeout_error"
    by (simp add: failing_env_def failing_net_def)
  have c: "code timeout_error = Some ''ECONNABORTED''" by (simp add: timeout_error_def)
  have d: "response timeout_error = None" by (simp add: timeout_error_def)
  have m: "message timeout_error = ''timeout of 30000ms exceeded''"
    by (simp add: timeout_error_def)
  show ?thesis
    using timeout_notified_once [OF a b c d] a b c d
    by (simp add: m fresh_world_def)
qed

text \<open>
  C5. When a request issued through the configured instance fails with a 4xx status other
  than 401 and 403 (the error bears a response with that status, and neither of the two
  transport codes), no notification is added, and the wrapper still raises the
  normalized error.
\<close>

theorem client_error_not_notified:
  assumes "via_api c"
    and "net env (outgoing env c w) = Inl e"
    and "response e = Some r"
    and "400 \<le> status r" and "status r \<le> 499"
    and "status r \<noteq> 401" and "status r \<noteq> 403"
    and "code e \<noteq> Some ''ECONNABORTED''" and "code e \<noteq> Some ''ERR_NETWORK''"
  shows "toasts (fst (apiService env c w)) = toasts w
       \<and> snd (apiService env c w) = Inl (handleError e)
       \<and> (\<exists>m. handleError e = Error m)"
proof -
  have "notice e = []"
    using assms(3-9) by (simp add: notice_def response_status_def)
  with call_failure(2) [OF assms(2)]
  have "toasts (fst (apiService env c w)) = toasts w" by simp
  moreover have "\<exists>m. handleError e = Error m"
    by (cases "handleError e") simp
  ultimately show ?thesis
    using call_failure(1) [OF assms(2)] by simp
qed

theorem client_error_not_notified_witness:
  "via_api (GetCampaignGifts ''c9'')
   \<and> net (failing_env not_found_error)
        (outgoing (failing_env not_found_error) (GetCampaignGifts ''c9'') fresh_world)
       = Inl not_found_error
   \<and> response not_found_error = Some \<lparr>status = 404, data = JObj [(''detail'', JStr ''Not Found'')]\<rparr>
   \<and> toasts (fst (apiService (failing_env not_found_error) (GetCampaignGifts ''c9'') fresh_world)) = []
   \<and> snd (apiService (failing_env not_found_error) (GetCampaignGifts ''c9'') fresh_world)
       = Inl (Error ''Not Found'')"
proof -
  let ?r = "\<lparr>status = 404, data = JObj [(''detail'', JStr ''Not Found'')]\<rparr>"
  have a: "via_api (GetCampaignGifts ''c9'')" by simp
  have b: "net (failing_env not_found_error)
        (outgoing (failing_env not_found_error) (GetCampaignGifts ''c9'') fresh_world)
       = Inl not_found_error"
    by (simp add: failing_env_def failing_net_def)
  have c: "response not_found_error = Some ?r" by (simp add: not_found_error_def)
  have d: "400 \<le> status ?r" "status ?r \<le> 499" "status ?r \<noteq> 401" "status ?r \<noteq> 403"
    by simp_all
  have e: "code not_found_error \<noteq> Some ''ECONNABORTED''"
    "code not_found_error \<noteq> Some ''ERR_NETWORK''"
    by (simp_all add: not_found_error_def)
  have h: "handleError not_found_error = Error ''Not Found''"
    by (simp add: handleError_def new_Error_def server_field_def not_found_error_def)
  show ?thesis
    using client_error_not_notified [OF a b c d e] a b c
    by (simp add: h fresh_world_def)
qed

text \<open>
  C9. \<open>healthCheck\<close> and \<open>createUser\<close> never add a notification, whatever the outcome of
  their request: they do not pass through the response interceptor. When their request
  fails, the caller still gets the normalized error.
\<close>

theorem bare_calls_never_notify:
  "toasts (fst (healthCheck env w)) = toasts w
   \<and> toasts (fst (createUser env userData w)) = toasts w
   \<and> (\<forall>e. net env (outgoing env HealthCheck w) = Inl e \<longrightarrow>
          snd (healthCheck env w) = Inl (handleError e))
   \<and> (\<forall>e. net env (outgoing env (CreateUser userData) w) = Inl e \<longrightarrow>
          snd (createUser env userData w) = Inl (handleError e))"
proof -
  have "toasts (fst (healthCheck env w)) = toasts w"
    by (simp add: healthCheck_def fst_settle axios_request_eq)
  moreover have "toasts (fst (createUser env userData w)) = toasts w"
    by (simp add: createUser_def fst_settle axios_request_eq)
  moreover have "\<forall>e. net env (outgoing env HealthCheck w) = Inl e \<longrightarrow>
          snd (healthCheck env w) = Inl (handleError e)"
    using call_failure(1) [of env HealthCheck w] by simp
  moreover have "\<forall>e. net env (outgoing env (CreateUser userData) w) = Inl e \<longrightarrow>
          snd (createUser env userData w) = Inl (handleError e)"
    using call_failure(1) [of env "CreateUser userData" w] by simp
  ultimately show ?thesis by blast
qed

theorem bare_calls_never_notify_witness:
  "net (failing_env unavailable_error)
       (outgoing (failing_env unavailable_error) HealthCheck fresh_world) = Inl unavailable_error
   \<and> net (failing_env timeout_and_401)
       (outgoing (failing_env timeout_and_401) (CreateUser alice) fresh_world) = Inl timeout_and_401
   \<and> toasts (fst (healthCheck (failing_env unavailable_error) fresh_world)) = []
   \<and> toasts (fst (createUser (failing_env timeout_and_401) alice fresh_world)) = []
   \<and> snd (healthCheck (failing_env unavailable_error) fresh_world)
       = Inl (Error ''Request failed with status code 503'')
   \<and> snd (createUser (failing_env timeout_and_401) alice fresh_world)
       = Inl (Error ''timeout of 30000ms exceeded'')"
proof -
  have a: "net (failing_env unavailable_error)
       (outgoing (failing_env unavailable_error) HealthCheck fresh_world) = Inl unavailable_error"
    by (simp add: failing_env_def failing_net_def)
  have b: "net (failing_env timeout_and_401)
       (outgoing (failing_env timeout_and_401) (CreateUser alice) fresh_world) = Inl timeout_and_401"
    by (simp add: failing_env_def failing_net_def)
  have h1: "handleError unavailable_error = Error ''Request failed with status code 503''"
    by (simp add: handleError_def server_field_def unavailable_error_def)
  have h2: "handleError timeout_and_401 = Error ''timeout of 30000ms exceeded''"
    by (simp add: handleError_def server_field_def timeout_and_401_def)
  show ?thesis
    using bare_calls_never_notify [of "failing_env unavailable_error" fresh_world alice]
      bare_calls_never_notify [of "failing_env timeout_and_401" fresh_world alice] a b
    by (simp add: h1 h2 fresh_world_def)
qed

text \<open>
  C6. The request of \<open>createUser\<close> carries a multipart form whose fields are named
  \<^verbatim>\<open>email\<close>, \<^verbatim>\<open>full_name\<close> and \<^verbatim>\<open>company_name\<close>, in this order, and the request of
  \<open>updateEmailConfig\<close> one whose fields are named \<^verbatim>\<open>resend_api_key\<close>, \<^verbatim>\<open>from_email\<close> and
  \<^verbatim>\<open>sending_domain\<close>; the third field is left out when the optional value is not provided.
\<close>

theorem multipart_field_names:
  "payload (outgoing env (CreateUser userData) w) = FormBody (createUser_form userData)
   \<and> payload (outgoing env (UpdateEmailConfig config) w) = FormBody (updateEmailConfig_form config)
   \<and> (company_name userData = None \<longrightarrow>
        createUser_form userData =
          [(''email'', FText (email userData)), (''full_name'', FText (full_name userData))])
   \<and> (\<forall>c. company_name userData = Some c \<and> c \<noteq> [] \<longrightarrow>
        createUser_form userData =
          [(''email'', FText (email userData)), (''full_name'', FText (full_name userData)),
           (''company_name'', FText c)])
   \<and> (sending_domain config = None \<longrightarrow>
        updateEmailConfig_form config =
          [(''resend_api_key'', FText (resend_api_key config)),
           (''from_email'', FText (from_email config))])
   \<and> (\<forall>d. sending_domain config = Some d \<and> d \<noteq> [] \<longrightarrow>
        updateEmailConfig_form config =
          [(''resend_api_key'', FText (resend_api_key config)),
           (''from_email'', FText (from_email config)),
           (''sending_domain'', FText d)])"
proof -
  have "payload (outgoing env (CreateUser userData) w) = FormBody (createUser_form userData)"
    by (simp add: outgoing_def createUser_def fst_settle axios_request_eq axios_config_def)
  moreover
  have "payload (outgoing env (UpdateEmailConfig config) w) = FormBody (updateEmailConfig_form config)"
    by (simp add: outgoing_def updateEmailConfig_def fst_settle api_request_sent
        payload_request_fulfilled api_config_def)
  moreover
  have "company_name userData = None \<longrightarrow>
        createUser_form userData =
          [(''email'', FText (email userData)), (''full_name'', FText (full_name userData))]"
    by (simp add: createUser_form_def form_append_def)
  moreover
  have "\<forall>c. company_name userData = Some c \<and> c \<noteq> [] \<longrightarrow>
        createUser_form userData =
          [(''email'', FText (email userData)), (''full_name'', FText (full_name userData)),
           (''company_name'', FText c)]"
    by (simp add: createUser_form_def form_append_def)
  moreover
  have "sending_domain config = None \<longrightarrow>
        updateEmailConfig_form config =
          [(''resend_api_key'', FText (resend_api_key config)),
           (''from_email'', FText (from_email config))]"
    by (simp add: updateEmailConfig_form_def form_append_def)
  moreover
  have "\<forall>d. sending_domain config = Some d \<and> d \<noteq> [] \<longrightarrow>
        updateEmailConfig_form config =
          [(''resend_api_key'', FText (resend_api_key config)),
           (''from_email'', FText (from_email config)),
           (''sending_domain'', FText d)]"
    by (simp add: updateEmailConfig_form_def form_append_def)
  ultimately show ?thesis by blast
qed

theorem multipart_field_names_witness:
  "company_name alice = None \<and> sending_domain mail_plain = None
   \<and> company_name carol = Some ''Acme''
   \<and> payload (outgoing ok_env (CreateUser alice) fresh_world) =
       FormBody [(''email'', FText ''alice@example.com''), (''full_name'', FText ''Alice'')]
   \<and> payload (outgoing ok_env (CreateUser carol) fresh_world) =
       FormBody [(''email'', FText ''carol@example.com''), (''full_name'', FText ''Carol''),
                 (''company_name'', FText ''Acme'')]
   \<and> payload (outgoing ok_env (UpdateEmailConfig mail_plain) fresh_world) =
       FormBody [(''resend_api_key'', FText ''re_123''),
                 (''from_email'', FText ''gifts@example.com'')]"
proof -
  have a: "company_name alice = None" by (simp add: alice_def)
  have b: "sending_domain mail_plain = None" by (simp add: mail_plain_def)
  have c: "company_name carol = Some ''Acme''" by (simp add: carol_def)
  show ?thesis
    using multipart_field_names [of ok_env alice fresh_world mail_plain]
      multipart_field_names [of ok_env carol fresh_world mail_plain] a b c
    by (simp add: alice_def carol_def mail_plain_def)
qed

text \<open>
  C10. The field \<^verbatim>\<open>company_name\<close> is part of the form of \<open>createUser\<close> only when the
  optional value is a non-empty string, and likewise \<^verbatim>\<open>sending_domain\<close> for
  \<open>updateEmailConfig\<close>; an empty string supplied for either is not transmitted.
\<close>

theorem empty_optional_field_omitted:
  "(company_name userData = Some [] \<longrightarrow>
      payload (outgoing env (CreateUser userData) w) =
        FormBody [(''email'', FText (email userData)), (''full_name'', FText (full_name userData))])
   \<and> (sending_domain config = Some [] \<longrightarrow>
      payload (outgoing env (UpdateEmailConfig config) w) =
        FormBody [(''resend_api_key'', FText (resend_api_key config)),
                  (''from_email'', FText (from_email config))])
   \<and> ((''company_name'' \<in> fst ` set (createUser_form userData)) =
        (\<exists>c. company_name userData = Some c \<and> c \<noteq> []))
   \<and> ((''sending_domain'' \<in> fst ` set (updateEmailConfig_form config)) =
        (\<exists>d. sending_domain config = Some d \<and> d \<noteq> []))"
proof -
  have p1: "payload (outgoing env (CreateUser userData) w) = FormBody (createUser_form userData)"
    by (simp add: outgoing_def createUser_def fst_settle axios_request_eq axios_config_def)
  have p2: "payload (outgoing env (UpdateEmailConfig config) w) =
      FormBody (updateEmailConfig_form config)"
    by (simp add: outgoing_def updateEmailConfig_def fst_settle api_request_sent
        payload_request_fulfilled api_config_def)
  have "company_name userData = Some [] \<longrightarrow>
      payload (outgoing env (CreateUser userData) w) =
        FormBody [(''email'', FText (email userData)), (''full_name'', FText (full_name userData))]"
    by (simp add: p1 createUser_form_def form_append_def)
  moreover
  have "sending_domain config = Some [] \<longrightarrow>
      payload (outgoing env (UpdateEmailConfig config) w) =
        FormBody [(''resend_api_key'', FText (resend_api_key config)),
                  (''from_email'', FText (from_email config))]"
    by (simp add: p2 updateEmailConfig_form_def form_append_def)
  moreover
  have "(''company_name'' \<in> fst ` set (createUser_form userData)) =
        (\<exists>c. company_name userData = Some c \<and> c \<noteq> [])"
    by (cases "company_name userData") (simp_all add: createUser_form_def form_append_def Let_def)
  moreover
  have "(''sending_domain'' \<in> fst ` set (updateEmailConfig_form config)) =
        (\<exists>d. sending_domain config = Some d \<and> d \<noteq> [])"
    by (cases "sending_domain config") (simp_all add: updateEmailConfig_form_def form_append_def Let_def)
  ultimately show ?thesis by blast
qed

theorem empty_optional_field_omitted_witness:
  "company_name bob = Some [] \<and> sending_domain mail_blank_domain = Some []
   \<and> payload (outgoing ok_env (CreateUser bob) fresh_world) =
       FormBody [(''email'', FText ''bob@example.com''), (''full_name'', FText ''Bob'')]
   \<and> payload (outgoing ok_env (UpdateEmailConfig mail_blank_domain) fresh_world) =
       FormBody [(''resend_api_key'', FText ''re_123''),
                 (''from_email'', FText ''gifts@example.com'')]"
proof -
  have a: "company_name bob = Some []" by (simp add: bob_def)
  have b: "sending_domain mail_blank_domain = Some []" by (simp add: mail_blank_domain_def)
  show ?thesis
    using empty_optional_field_omitted [of bob ok_env fresh_world mail_blank_domain] a b
    by (simp add: bob_def mail_blank_domain_def)
qed

text \<open>
  C7, amended. While a non-empty credential is stored, every request issued through the
  configured instance carries it in the header \<^verbatim>\<open>X-API-Key\<close>. The requests of
  \<open>healthCheck\<close> and \<open>createUser\<close>, issued on the bare library object, never get the
  header from this code, whatever is stored (the library's default headers being without
  it).
\<close>

theorem api_key_only_via_instance:
  assumes "default_headers env ''X-API-Key'' = None"
  shows "(via_api c \<longrightarrow>
            (\<forall>k. getApiKey w = Some k \<and> k \<noteq> [] \<longrightarrow>
               header (outgoing env c w) ''X-API-Key'' = Some k))
       \<and> header (outgoing env HealthCheck w) ''X-API-Key'' = None
       \<and> header (outgoing env (CreateUser userData) w) ''X-API-Key'' = None"
proof -
  have attached: "via_api c \<longrightarrow>
            (\<forall>k. getApiKey w = Some k \<and> k \<noteq> [] \<longrightarrow>
               header (outgoing env c w) ''X-API-Key'' = Some k)"
  proof (intro impI allI)
    fix k
    assume v: "via_api c" and k: "getApiKey w = Some k \<and> k \<noteq> []"
    from v obtain cfg where
      n: "headers cfg \<noteq> None" and
      o: "outgoing env c w = request_fulfilled w cfg"
      by (rule via_api_call)
    from k n show "header (outgoing env c w) ''X-API-Key'' = Some k"
      by (simp add: o header_request_fulfilled getApiKey_def)
  qed
  have bare: "header (outgoing env b w) ''X-API-Key'' = None" if "\<not> via_api b" for b
  proof -
    from that obtain cfg where
      h: "header cfg ''X-API-Key'' = default_headers env ''X-API-Key''" and
      o: "outgoing env b w = cfg"
      by (rule bare_call)
    with assms show ?thesis by simp
  qed
  have "header (outgoing env HealthCheck w) ''X-API-Key'' = None"
    by (rule bare) simp
  moreover have "header (outgoing env (CreateUser userData) w) ''X-API-Key'' = None"
    by (rule bare) simp
  ultimately show ?thesis using attached by blast
qed

theorem api_key_only_via_instance_witness:
  "default_headers ok_env ''X-API-Key'' = None
   \<and> via_api (VerifyGift ''g1'' True)
   \<and> getApiKey (setApiKey ''secret'' fresh_world) = Some ''secret''
   \<and> header (outgoing ok_env (VerifyGift ''g1'' True) (setApiKey ''secret'' fresh_world))
        ''X-API-Key'' = Some ''secret''
   \<and> header (outgoing ok_env HealthCheck (setApiKey ''secret'' fresh_world)) ''X-API-Key'' = None
   \<and> header (outgoing ok_env (CreateUser alice) (setApiKey ''secret'' fresh_world))
        ''X-API-Key'' = None"
proof -
  have a: "default_headers ok_env ''X-API-Key'' = None" by (simp add: ok_env_def)
  have b: "via_api (VerifyGift ''g1'' True)" by simp
  have c: "getApiKey (setApiKey ''secret'' fresh_world) = Some ''secret''"
    by (simp add: getApiKey_def setApiKey_def)
  show ?thesis
    using api_key_only_via_instance
      [OF a, of "VerifyGift ''g1'' True" "setApiKey ''secret'' fresh_world" alice] a b c
    by simp
qed

text \<open>
  C7 as stated fails when the stored credential is the empty string: a credential is
  stored, and a request issued through the configured instance goes out without the
  header.
\<close>

theorem empty_api_key_not_attached:
  "via_api GetEmailConfig \<and> getApiKey (setApiKey [] fresh_world) = Some []
   \<and> header (outgoing ok_env GetEmailConfig (setApiKey [] fresh_world)) ''X-API-Key'' = None"
  by (simp add: getApiKey_def setApiKey_def fresh_world_def outgoing_def getEmailConfig_def
      fst_settle api_request_sent header_request_fulfilled header_api_config no_options_def
      ok_env_def)

end
